theory Spec2Isabelle
  imports Complex_Main "HOL-Library.Sublist" "HOL-Library.AList"
begin

section \<open>Python values used by the report builder\<close>

text \<open>
  A Python \<open>str\<close> is a sequence of Unicode code points, so it is modelled as a list of
  natural numbers; \<open>len\<close> is \<open>length\<close> and \<open>+\<close> is \<open>@\<close>. The literals of the source
  are ASCII and are written \<open>lit ''...''\<close>.
\<close>

type_synonym pystr = "nat list"

definition lit :: "string \<Rightarrow> pystr" where
  "lit cs = map of_char cs"

text \<open>\<open>str(n)\<close> for an integer: the decimal digits, with a minus sign when negative.\<close>

definition digit :: "nat \<Rightarrow> nat" where
  "digit k = 48 + k"

fun str_nat :: "nat \<Rightarrow> pystr" where
  "str_nat n = (if n < 10 then [digit n] else str_nat (n div 10) @ [digit (n mod 10)])"

declare str_nat.simps [simp del]

definition str_int :: "int \<Rightarrow> pystr" where
  "str_int i = (if i < 0 then 45 # str_nat (nat (- i)) else str_nat (nat i))"

text \<open>
  The format specification \<open>02d\<close>: the decimal form, filled with zeros up to width 2.
  A negative number already has two characters, so the fill only ever precedes a single
  digit.
\<close>

definition format_02d :: "int \<Rightarrow> pystr" where
  "format_02d i = (let s = str_int i in replicate (2 - length s) (digit 0) @ s)"

text \<open>
  A finite \<open>float\<close> denotes a rational number. Durations are modelled by that number
  and \<open>*\<close>, \<open>/\<close> and \<open>%\<close> by the exact operations: the binary rounding of the
  intermediate results is not part of the model, and neither are \<open>inf\<close> and \<open>nan\<close>,
  which no elapsed time is.

  \<open>x % y\<close> for a positive divisor is \<open>x - y * floor (x / y)\<close>; the source only divides
  by the constants 3600 and 60. \<open>round(x)\<close> with one argument returns the nearest
  integer and, halfway between two integers, the even one.
\<close>

definition fmod :: "rat \<Rightarrow> rat \<Rightarrow> rat" where
  "fmod x y = x - y * of_int \<lfloor>x / y\<rfloor>"

definition py_round :: "rat \<Rightarrow> int" where
  "py_round x =
     (let f = \<lfloor>x\<rfloor>; r = x - of_int f
      in if r < 1 / 2 then f
         else if 1 / 2 < r then f + 1
         else if even f then f else f + 1)"

section \<open>The duration formatter\<close>

text \<open>
  \<^verbatim>\<open>
  def _format_duration(duration):
      if duration < 1:
          return "{} ms".format(round(duration * 1000))
      hours = math.floor(duration / 3600)
      remaining_seconds = duration % 3600
      minutes = math.floor(remaining_seconds / 60)
      remaining_seconds = remaining_seconds % 60
      seconds = round(remaining_seconds)
      return f"{hours:02d}:{minutes:02d}:{seconds:02d}"
  \<close>
\<close>

definition format_duration :: "rat \<Rightarrow> pystr" where
  "format_duration duration =
     (if duration < 1 then str_int (py_round (duration * 1000)) @ lit '' ms''
      else
        let hours = \<lfloor>duration / 3600\<rfloor>;
            remaining_seconds = fmod duration 3600;
            minutes = \<lfloor>remaining_seconds / 60\<rfloor>;
            remaining_seconds = fmod remaining_seconds 60;
            seconds = py_round remaining_seconds
        in format_02d hours @ lit '':'' @ format_02d minutes @ lit '':'' @ format_02d seconds)"

section \<open>Strings\<close>

text \<open>
  \<open>sub in s\<close> on strings is the substring test, and \<open>s.replace(old, new)\<close> replaces
  the occurrences of \<open>old\<close> from left to right without overlap. Every pattern the
  source replaces is a non-empty literal; for the empty pattern, which Python treats
  specially, this \<open>replace\<close> returns the string as it is.
\<close>

fun contains :: "pystr \<Rightarrow> pystr \<Rightarrow> bool" where
  "contains sub [] = (sub = [])"
| "contains sub (c # cs) = (prefix sub (c # cs) \<or> contains sub cs)"

function replace :: "pystr \<Rightarrow> pystr \<Rightarrow> pystr \<Rightarrow> pystr" where
  "replace old new [] = []"
| "replace old new (c # cs) =
     (if old \<noteq> [] \<and> prefix old (c # cs)
      then new @ replace old new (drop (length old) (c # cs))
      else c # replace old new cs)"
  by pat_completeness auto
termination
  by (relation "measure (\<lambda>(old, new, s). length s)") auto

text \<open>
  \<open>str.capitalize()\<close> returns the string with its first character in upper case and
  all the others in lower case. The case mapping is the ASCII one; the Unicode tables
  for code points from 128 on are not part of the model, which leaves them as they are.
\<close>

definition to_upper :: "nat \<Rightarrow> nat" where
  "to_upper c = (if 97 \<le> c \<and> c \<le> 122 then c - 32 else c)"

definition to_lower :: "nat \<Rightarrow> nat" where
  "to_lower c = (if 65 \<le> c \<and> c \<le> 90 then c + 32 else c)"

fun capitalize :: "pystr \<Rightarrow> pystr" where
  "capitalize [] = []"
| "capitalize (c # cs) = to_upper c # map to_lower cs"

text \<open>
  The format specification \<open>-^80\<close>: the text centred in a field of 80 columns filled
  with \<open>-\<close>; of an odd number of fill characters the extra one goes to the right, and a
  text of 80 characters or more is left as it is.
\<close>

definition format_center :: "nat \<Rightarrow> nat \<Rightarrow> pystr \<Rightarrow> pystr" where
  "format_center fill width s =
     (let padding = width - length s;
          left = padding div 2;
          right = padding - left
      in replicate left fill @ s @ replicate right fill)"

definition newline :: pystr where
  "newline = [10]"

text \<open>
  \<open>s[start:]\<close> for an integer \<open>start\<close>: a negative \<open>start\<close> counts from the end and is
  clipped at the beginning of the string.
\<close>

definition slice_from :: "int \<Rightarrow> 'a list \<Rightarrow> 'a list" where
  "slice_from start xs =
     (if start < 0 then drop (length xs - nat (- start)) xs else drop (nat start) xs)"

text \<open>
  A Python object is a \<open>str\<close> or something else (\<open>None\<close>, \<open>bytes\<close>, a number, a
  dictionary, a legacy markup object). What the report builder does with an object
  that is not a \<open>str\<close> is to call \<open>str()\<close> on it or to hand it on, so such objects
  are a type parameter \<open>'o\<close> and \<open>str()\<close> on them is a parameter \<open>str_obj\<close>.
\<close>

datatype 'o pyval = PStr pystr | PObj 'o

fun py_str :: "('o \<Rightarrow> pystr) \<Rightarrow> 'o pyval \<Rightarrow> pystr" where
  "py_str str_obj (PStr s) = s"
| "py_str str_obj (PObj x) = str_obj x"

text \<open>The exceptions that the library calls of the source can raise.\<close>

datatype py_error = KeyError | UnicodeDecodeError | TypeError

section \<open>Test reports\<close>

text \<open>
  An attached extra is a dictionary with the keys \<open>content\<close>, \<open>extension\<close>,
  \<open>format_type\<close>, \<open>mime_type\<close> and \<open>name\<close>. The report of one phase of one test
  carries the attributes that the source reads; \<open>wasxfail\<close>, \<open>rerun\<close> and \<open>extras\<close>
  are optional attributes (\<open>hasattr\<close>, \<open>getattr\<close> with a default).
\<close>

record 'o extra =
  content :: "'o pyval"
  extension :: "'o pyval"
  format_type :: pystr
  mime_type :: "'o pyval"
  extra_name :: "'o pyval"

record 'o test_report =
  nodeid :: pystr
  when' :: pystr
  outcome :: pystr
  duration :: rat
  longreprtext :: pystr
  sections :: "(pystr \<times> pystr) list"
  wasxfail :: "pystr option"
  rerun :: "int option"
  extras :: "'o extra list option"

section \<open>The outcome classifier\<close>

text \<open>
  \<^verbatim>\<open>
  def _is_error(report):
      return report.when in ["setup", "teardown"] and report.outcome == "failed"

  def _process_outcome(report):
      if _is_error(report):
          return "Error"
      if hasattr(report, "wasxfail"):
          if report.outcome in ["passed", "failed"]:
              return "XPassed"
          if report.outcome == "skipped":
              return "XFailed"
      return report.outcome.capitalize()
  \<close>
\<close>

definition is_error :: "'o test_report \<Rightarrow> bool" where
  "is_error report =
     (when' report \<in> set [lit ''setup'', lit ''teardown''] \<and> outcome report = lit ''failed'')"

definition process_outcome :: "'o test_report \<Rightarrow> pystr" where
  "process_outcome report =
     (if is_error report then lit ''Error''
      else case wasxfail report of
        Some _ \<Rightarrow>
          if outcome report \<in> set [lit ''passed'', lit ''failed''] then lit ''XPassed''
          else if outcome report = lit ''skipped'' then lit ''XFailed''
          else capitalize (outcome report)
      | None \<Rightarrow> capitalize (outcome report))"

section \<open>The log processor\<close>

text \<open>
  \<^verbatim>\<open>
  def _process_logs(report):
      log = []
      if report.longreprtext:
          log.append(report.longreprtext.replace("<", "&lt;").replace(">", "&gt;") + "\n")
      # Don't add captured output to reruns
      if report.outcome != "rerun":
          for section in report.sections:
              header, content = section
              log.append(f"{' ' + header + ' ':-^80}\n{content}")
              # weird formatting related to logs
              if "log" in header:
                  log.append("")
                  if "call" in header:
                      log.append("")
      if not log:
          log.append("No log output captured.")
      return log
  \<close>
  The loop over the sections appends to the list \<open>log\<close> (here \<open>log'\<close>), which the model
  passes along.
\<close>

fun sections_loop :: "(pystr \<times> pystr) list \<Rightarrow> pystr list \<Rightarrow> pystr list" where
  "sections_loop [] log' = log'"
| "sections_loop ((header, text) # rest) log' =
     (let log' = log' @ [format_center 45 80 (lit '' '' @ header @ lit '' '') @ newline @ text];
          log' = (if contains (lit ''log'') header
                 then (let log' = log' @ [[]]
                       in if contains (lit ''call'') header then log' @ [[]] else log')
                 else log')
      in sections_loop rest log')"

definition process_logs :: "'o test_report \<Rightarrow> pystr list" where
  "process_logs report =
     (let log' = [];
          log' = (if longreprtext report \<noteq> []
                 then log' @ [replace (lit ''>'') (lit ''&gt;'')
                               (replace (lit ''<'') (lit ''&lt;'') (longreprtext report)) @ newline]
                 else log');
          log' = (if outcome report \<noteq> lit ''rerun'' then sections_loop (sections report) log'
                 else log');
          log' = (if log' = [] then log' @ [lit ''No log output captured.''] else log')
      in log')"

section \<open>Configuration and libraries\<close>

text \<open>
  The report builder reads three values from the configuration and calls the \<open>re\<close>,
  \<open>json\<close> and codec libraries and the content sinks that the subclasses of
  \<open>BaseReport\<close> override. They are the fields of one record of parameters; the
  theorems hold for every choice of them.

  \<^item> \<open>max_asset_filename_length\<close>, \<open>environment_table_redact_list\<close>: the two ini
    values; \<open>stash_metadata\<close>: the dictionary \<open>config.stash[metadata_key]\<close>.
  \<^item> \<open>re_match r s\<close>: whether \<open>re.match(r, s)\<close> finds a match; \<open>'r\<close> is the type of the
    valid patterns.
  \<^item> \<open>str_obj\<close>: \<open>str()\<close> on an object that is not a \<open>str\<close>.
  \<^item> \<open>uni_word c\<close>: whether \<open>\w\<close> matches the code point \<open>c\<close>, for \<open>c\<close> from 128 on.
  \<^item> \<open>unicode_escape s\<close>: \<open>s.encode("utf-8").decode("unicode_escape")\<close>, which raises on
    a malformed escape sequence.
  \<^item> \<open>json_dumps\<close>: \<open>json.dumps\<close>, which raises on an object it cannot serialise.
  \<^item> \<open>bytes_decode x\<close>: \<open>None\<close> when \<open>x\<close> is not a \<open>bytes\<close> object, and otherwise the
    result of \<open>x.decode("utf-8")\<close>.
  \<^item> \<open>data_content\<close>, \<open>media_content\<close>: the sinks, called with the content, the
    asset name and the mime type.
\<close>

record ('r, 'o) config =
  max_asset_filename_length :: int
  environment_table_redact_list :: "'r list"
  stash_metadata :: "(pystr \<times> 'o pyval) list"
  re_match :: "'r \<Rightarrow> pystr \<Rightarrow> bool"
  str_obj :: "'o \<Rightarrow> pystr"
  uni_word :: "nat \<Rightarrow> bool"
  unicode_escape :: "pystr \<Rightarrow> py_error + pystr"
  json_dumps :: "'o pyval \<Rightarrow> py_error + pystr"
  bytes_decode :: "'o \<Rightarrow> (py_error + pystr) option"
  data_content :: "'o pyval \<Rightarrow> pystr \<Rightarrow> 'o pyval \<Rightarrow> 'o pyval"
  media_content :: "'o pyval \<Rightarrow> pystr \<Rightarrow> 'o pyval \<Rightarrow> 'o pyval"

section \<open>The environment redactor\<close>

text \<open>
  \<^verbatim>\<open>
  def _is_redactable_environment_variable(self, environment_variable):
      redactable_regexes = self._config.getini("environment_table_redact_list")
      for redactable_regex in redactable_regexes:
          if re.match(redactable_regex, environment_variable):
              return True
      return False
  \<close>
\<close>

fun redactable_loop :: "('r \<Rightarrow> pystr \<Rightarrow> bool) \<Rightarrow> 'r list \<Rightarrow> pystr \<Rightarrow> bool" where
  "redactable_loop m [] environment_variable = False"
| "redactable_loop m (redactable_regex # rest) environment_variable =
     (if m redactable_regex environment_variable then True
      else redactable_loop m rest environment_variable)"

definition is_redactable_environment_variable :: "('r, 'o) config \<Rightarrow> pystr \<Rightarrow> bool" where
  "is_redactable_environment_variable cfg environment_variable =
     redactable_loop (re_match cfg) (environment_table_redact_list cfg) environment_variable"

text \<open>
  \<^verbatim>\<open>
  def _generate_environment(self, metadata_key):
      metadata = self._config.stash[metadata_key]
      for key in metadata.keys():
          value = metadata[key]
          if self._is_redactable_environment_variable(key):
              black_box_ascii_value = 0x2593
              metadata[key] = "".join(chr(black_box_ascii_value) for _ in str(value))
      return metadata
  \<close>
  The dictionary is an association list in insertion order. The loop runs over the
  keys the dictionary has when the loop starts, reads each value from the dictionary as
  it then is, and overwrites it in place. A lookup that finds nothing raises \<open>KeyError\<close>.
\<close>

definition black_box_ascii_value :: nat where
  "black_box_ascii_value = 0x2593"

fun environment_loop ::
  "('r, 'o) config \<Rightarrow> pystr list \<Rightarrow> (pystr \<times> 'o pyval) list
     \<Rightarrow> py_error + (pystr \<times> 'o pyval) list" where
  "environment_loop cfg [] metadata = Inr metadata"
| "environment_loop cfg (key # keys) metadata =
     (case map_of metadata key of
        None \<Rightarrow> Inl KeyError
      | Some v \<Rightarrow>
          environment_loop cfg keys
            (if is_redactable_environment_variable cfg key
             then AList.update key
                    (PStr (map (\<lambda>_. black_box_ascii_value) (py_str (str_obj cfg) v))) metadata
             else metadata))"

definition generate_environment ::
  "('r, 'o) config \<Rightarrow> py_error + (pystr \<times> 'o pyval) list" where
  "generate_environment cfg =
     (let metadata = stash_metadata cfg
      in environment_loop cfg (map fst metadata) metadata)"

section \<open>Asset file names\<close>

text \<open>
  \<^verbatim>\<open>
  def _asset_filename(self, test_id, extra_index, test_index, file_extension):
      return "{}_{}_{}.{}".format(
          re.sub(r"[^\w.]", "_", test_id),
          str(extra_index),
          str(test_index),
          file_extension,
      )[-self._max_asset_filename_length :]
  \<close>
  In a \<open>str\<close> pattern \<open>\w\<close> matches the ASCII letters and digits, the underscore, and
  the code points from 128 on that the Unicode database classes as alphanumeric.
\<close>

definition word_char :: "('r, 'o) config \<Rightarrow> nat \<Rightarrow> bool" where
  "word_char cfg c =
     (if c < 128
      then (48 \<le> c \<and> c \<le> 57) \<or> (65 \<le> c \<and> c \<le> 90) \<or> (97 \<le> c \<and> c \<le> 122) \<or> c = 95
      else uni_word cfg c)"

definition sanitize :: "('r, 'o) config \<Rightarrow> pystr \<Rightarrow> pystr" where
  "sanitize cfg test_id = map (\<lambda>c. if word_char cfg c \<or> c = 46 then c else 95) test_id"

definition asset_filename ::
  "('r, 'o) config \<Rightarrow> pystr \<Rightarrow> int \<Rightarrow> int \<Rightarrow> 'o pyval \<Rightarrow> pystr" where
  "asset_filename cfg test_id extra_index test_index file_extension =
     slice_from (- max_asset_filename_length cfg)
       (sanitize cfg test_id @ lit ''_'' @ str_int extra_index @ lit ''_'' @
        str_int test_index @ lit ''.'' @ py_str (str_obj cfg) file_extension)"

section \<open>The extras processor\<close>

text \<open>
  \<^verbatim>\<open>
  def _process_extras(self, report, test_id):
      test_index = hasattr(report, "rerun") and report.rerun + 1 or 0
      report_extras = getattr(report, "extras", [])
      for extra_index, extra in enumerate(report_extras):
          content = extra["content"]
          asset_name = self._asset_filename(
              test_id.encode("utf-8").decode("unicode_escape"),
              extra_index, test_index, extra["extension"])
          if extra["format_type"] == extras.FORMAT_JSON:
              content = json.dumps(content)
              extra["content"] = self._data_content(
                  content, asset_name=asset_name, mime_type=extra["mime_type"])
          if extra["format_type"] == extras.FORMAT_TEXT:
              if isinstance(content, bytes):
                  content = content.decode("utf-8")
              extra["content"] = self._data_content(
                  content, asset_name=asset_name, mime_type=extra["mime_type"])
          if extra["format_type"] in [extras.FORMAT_IMAGE, extras.FORMAT_VIDEO]:
              extra["content"] = self._media_content(
                  content, asset_name=asset_name, mime_type=extra["mime_type"])
      return report_extras
  \<close>
  \<open>a and b or c\<close> is \<open>b\<close> when \<open>a\<close> and \<open>b\<close> are both true, and \<open>c\<close> otherwise; an
  integer is true when it is not 0.
\<close>

definition truthy :: "int \<Rightarrow> bool" where
  "truthy n = (n \<noteq> 0)"

definition test_index_of :: "'o test_report \<Rightarrow> int" where
  "test_index_of report =
     (case rerun report of
        None \<Rightarrow> 0
      | Some n \<Rightarrow> if truthy (n + 1) then n + 1 else 0)"

text \<open>
  Modelled from the spec: the constants \<open>FORMAT_JSON\<close>, \<open>FORMAT_TEXT\<close>, \<open>FORMAT_IMAGE\<close>
  and \<open>FORMAT_VIDEO\<close> of the module \<open>extras\<close>, which is not among the sources. The spec
  gives the format types as \<open>json\<close>, \<open>text\<close>, \<open>image\<close>, \<open>video\<close> and \<open>url\<close>, and
  the source itself compares with \<open>"json"\<close>, \<open>"text"\<close> and \<open>"url"\<close> when it collects the
  links.
\<close>

definition FORMAT_JSON :: pystr where
  "FORMAT_JSON = lit ''json''"

definition FORMAT_TEXT :: pystr where
  "FORMAT_TEXT = lit ''text''"

definition FORMAT_IMAGE :: pystr where
  "FORMAT_IMAGE = lit ''image''"

definition FORMAT_VIDEO :: pystr where
  "FORMAT_VIDEO = lit ''video''"

text \<open>One pass of the loop body: the extra as the body leaves it, or the exception.\<close>

definition process_extra ::
  "('r, 'o) config \<Rightarrow> pystr \<Rightarrow> int \<Rightarrow> int \<Rightarrow> 'o extra \<Rightarrow> py_error + 'o extra" where
  "process_extra cfg test_id test_index extra_index extra =
     (case unicode_escape cfg test_id of
        Inl e \<Rightarrow> Inl e
      | Inr decoded \<Rightarrow>
          let asset_name = asset_filename cfg decoded extra_index test_index (extension extra)
          in case (if format_type extra = FORMAT_JSON
                   then (case json_dumps cfg (content extra) of
                           Inl e \<Rightarrow> Inl e
                         | Inr s \<Rightarrow>
                             Inr (PStr s,
                                  extra\<lparr>content :=
                                    data_content cfg (PStr s) asset_name (mime_type extra)\<rparr>))
                   else Inr (content extra, extra)) of
               Inl e \<Rightarrow> Inl e
             | Inr (c, extra) \<Rightarrow>
                 (case (if format_type extra = FORMAT_TEXT
                        then (case (case c of
                                      PStr s \<Rightarrow> Inr c
                                    | PObj x \<Rightarrow>
                                        (case bytes_decode cfg x of
                                           None \<Rightarrow> Inr c
                                         | Some (Inl e) \<Rightarrow> Inl e
                                         | Some (Inr s) \<Rightarrow> Inr (PStr s))) of
                                Inl e \<Rightarrow> Inl e
                              | Inr c \<Rightarrow>
                                  Inr (c, extra\<lparr>content :=
                                         data_content cfg c asset_name (mime_type extra)\<rparr>))
                        else Inr (c, extra)) of
                    Inl e \<Rightarrow> Inl e
                  | Inr (c, extra) \<Rightarrow>
                      Inr (if format_type extra \<in> set [FORMAT_IMAGE, FORMAT_VIDEO]
                           then extra\<lparr>content :=
                                  media_content cfg c asset_name (mime_type extra)\<rparr>
                           else extra)))"

fun extras_loop ::
  "('r, 'o) config \<Rightarrow> pystr \<Rightarrow> int \<Rightarrow> int \<Rightarrow> 'o extra list \<Rightarrow> py_error + 'o extra list" where
  "extras_loop cfg test_id test_index extra_index [] = Inr []"
| "extras_loop cfg test_id test_index extra_index (extra # rest) =
     (case process_extra cfg test_id test_index extra_index extra of
        Inl e \<Rightarrow> Inl e
      | Inr extra \<Rightarrow>
          (case extras_loop cfg test_id test_index (extra_index + 1) rest of
             Inl e \<Rightarrow> Inl e
           | Inr rest \<Rightarrow> Inr (extra # rest)))"

definition process_extras ::
  "('r, 'o) config \<Rightarrow> 'o test_report \<Rightarrow> pystr \<Rightarrow> py_error + 'o extra list" where
  "process_extras cfg report test_id =
     (let test_index = test_index_of report;
          report_extras = (case extras report of None \<Rightarrow> [] | Some xs \<Rightarrow> xs)
      in extras_loop cfg test_id test_index 0 report_extras)"

section \<open>The report data and the hooks\<close>

text \<open>
  Modelled from the spec: the class \<open>ReportData\<close> behind \<open>self._report\<close>, which is not
  among the sources. The spec gives its entries: the title, the environment, the header
  cells of the results table, the additional summary with its prefix, summary and
  postfix, the total duration with its number and its formatted text, the running
  state, the number of collected items, and the rows. \<open>set_data(key, value)\<close> stores
  \<open>value\<close> under \<open>key\<close>, written here as a record update. How the rows are stored is
  the data model's own matter, so their store is a type parameter \<open>'t\<close>.
\<close>

record ('o, 't) report_data =
  title :: pystr
  environment :: "(pystr \<times> 'o pyval) list"
  resultsTableHeader :: "pystr list"
  summary_prefix :: "'o pyval list"
  summary_body :: "'o pyval list"
  summary_postfix :: "'o pyval list"
  totalDuration_total :: rat
  totalDuration_formatted :: pystr
  runningState :: pystr
  collectedItems :: nat
  tests :: 't

text \<open>
  Modelled from the spec: the running state before the session starts. The spec names
  the three states \<open>NotStarted\<close>, \<open>Started\<close> and \<open>Finished\<close>; the source writes the last
  two as the strings \<open>"Started"\<close> and \<open>"Finished"\<close>.
\<close>

definition initial_data :: "pystr \<Rightarrow> pystr list \<Rightarrow> 't \<Rightarrow> ('o, 't) report_data" where
  "initial_data report_name header rows =
     \<lparr>title = report_name, environment = [], resultsTableHeader = header,
      summary_prefix = [], summary_body = [], summary_postfix = [],
      totalDuration_total = 0, totalDuration_formatted = [],
      runningState = lit ''NotStarted'', collectedItems = 0, tests = rows\<rparr>"

text \<open>
  The dictionary \<open>data\<close> that \<open>pytest_runtest_logreport\<close> builds for one row.
\<close>

record 'o test_row =
  result :: pystr
  duration_text :: pystr
  testId :: pystr
  row_extras :: "'o extra list"
  resultsTableRow :: "pystr list"

text \<open>
  The state of a \<open>BaseReport\<close>: the report data, and what \<open>_write_report\<close> has written
  to the report file so far, the latest text last (each write replaces the file).
\<close>

record ('o, 't) base_report =
  rdata :: "('o, 't) report_data"
  written :: "pystr list"

text \<open>
  The hooks that other plugins implement, the template, and the data model's
  \<open>add_test\<close>, as parameters.

  \<^item> \<open>title_hook\<close>, \<open>header_hook\<close>, \<open>row_hook\<close>, \<open>html_hook\<close>, \<open>summary_hook\<close>: the
    hooks \<open>pytest_html_report_title\<close>, \<open>pytest_html_results_table_header\<close>,
    \<open>pytest_html_results_table_row\<close>, \<open>pytest_html_results_table_html\<close> and
    \<open>pytest_html_results_summary\<close>. A hook changes the list it is given in place; the
    model returns the list as the hook leaves it. The title hook is given the report
    data to set the title.
  \<^item> \<open>add_test\<close>: Modelled from the spec: \<open>ReportData.add_test(data, report, logs)\<close>
    appends the row to the rows of the data model according to its insertion policy
    and tells whether the addition is reportable.
  \<^item> \<open>render\<close>: the template applied to the report data by \<open>_render_html\<close> (with the
    date, the version and the style sheet, which play no role here).
\<close>

record ('o, 't) hooks =
  title_hook :: "pystr \<Rightarrow> pystr"
  header_hook :: "pystr list \<Rightarrow> 'o pyval list"
  row_hook :: "'o test_report \<Rightarrow> 'o pyval list \<Rightarrow> 'o pyval list"
  html_hook :: "'o test_report \<Rightarrow> pystr list \<Rightarrow> pystr list"
  summary_hook ::
    "'o pyval list \<Rightarrow> 'o pyval list \<Rightarrow> 'o pyval list
       \<Rightarrow> 'o pyval list \<times> 'o pyval list \<times> 'o pyval list"
  add_test :: "'o test_row \<Rightarrow> 'o test_report \<Rightarrow> pystr list \<Rightarrow> 't \<Rightarrow> bool \<times> 't"
  render :: "('o, 't) report_data \<Rightarrow> pystr"

section \<open>Rendering and writing\<close>

text \<open>
  \<^verbatim>\<open>
  def _generate_report(self, self_contained=False):
      generated = datetime.datetime.now()
      rendered_report = self._render_html(...)
      self._write_report(rendered_report)
  \<close>
\<close>

definition generate_report ::
  "('o, 't) hooks \<Rightarrow> ('o, 't) base_report \<Rightarrow> ('o, 't) base_report" where
  "generate_report hk st = st\<lparr>written := written st @ [render hk (rdata st)]\<rparr>"

text \<open>
  \<^verbatim>\<open>
  def _process_links(links):
      a_tag = '<a target="_blank" href="{content}" class="col-links__extra {format_type}">{name}</a>'
      return "".join([a_tag.format_map(link) for link in links])

  def _fix_py(cells):
      # backwards-compat
      new_cells = []
      for html in cells:
          if not isinstance(html, str):
              if html.__module__.startswith("py."):
                  warnings.warn(...)
              html = str(html)
              html = html.replace("col=", "data-column-type=")
          new_cells.append(html)
      return new_cells
  \<close>
  Warnings have no effect on the report and are not modelled.
\<close>

definition process_links :: "('r, 'o) config \<Rightarrow> 'o extra list \<Rightarrow> pystr" where
  "process_links cfg links =
     concat (map (\<lambda>link.
        lit ''<a target=\"_blank\" href=\"'' @ py_str (str_obj cfg) (content link) @
        lit ''\" class=\"col-links__extra '' @ format_type link @ lit ''\">'' @
        py_str (str_obj cfg) (extra_name link) @ lit ''</a>'') links)"

definition fix_py :: "('r, 'o) config \<Rightarrow> 'o pyval list \<Rightarrow> pystr list" where
  "fix_py cfg cells =
     map (\<lambda>html. case html of
            PStr s \<Rightarrow> s
          | PObj x \<Rightarrow> replace (lit ''col='') (lit ''data-column-type='') (str_obj cfg x)) cells"

section \<open>The lifecycle handlers\<close>

text \<open>
  A handler takes the state of the \<open>BaseReport\<close> and returns the state it leaves,
  together with the exception it raised, if any.

  \<^verbatim>\<open>
  def pytest_sessionstart(self, session):
      self._report.set_data("environment", self._generate_environment(metadata_key))
      session.config.hook.pytest_html_report_title(report=self._report)
      headers = self._report.data["resultsTableHeader"]
      session.config.hook.pytest_html_results_table_header(cells=headers)
      self._report.data["resultsTableHeader"] = _fix_py(headers)
      self._report.set_data("runningState", "Started")
      self._generate_report()
  \<close>
\<close>

definition pytest_sessionstart ::
  "('r, 'o) config \<Rightarrow> ('o, 't) hooks \<Rightarrow> ('o, 't) base_report
     \<Rightarrow> py_error option \<times> ('o, 't) base_report" where
  "pytest_sessionstart cfg hk st =
     (case generate_environment cfg of
        Inl e \<Rightarrow> (Some e, st)
      | Inr env \<Rightarrow>
          let d = (rdata st)\<lparr>environment := env\<rparr>;
              d = d\<lparr>title := title_hook hk (title d)\<rparr>;
              headers = header_hook hk (resultsTableHeader d);
              d = d\<lparr>resultsTableHeader := fix_py cfg headers\<rparr>;
              d = d\<lparr>runningState := lit ''Started''\<rparr>
          in (None, generate_report hk (st\<lparr>rdata := d\<rparr>)))"

text \<open>
  \<^verbatim>\<open>
  def pytest_sessionfinish(self, session):
      session.config.hook.pytest_html_results_summary(
          prefix=self._report.data["additionalSummary"]["prefix"],
          summary=self._report.data["additionalSummary"]["summary"],
          postfix=self._report.data["additionalSummary"]["postfix"],
          session=session,
      )
      self._report.set_data("runningState", "Finished")
      self._generate_report()
  \<close>
\<close>

definition pytest_sessionfinish ::
  "('o, 't) hooks \<Rightarrow> ('o, 't) base_report \<Rightarrow> py_error option \<times> ('o, 't) base_report" where
  "pytest_sessionfinish hk st =
     (let d = rdata st;
          (pre, body, post) = summary_hook hk (summary_prefix d) (summary_body d) (summary_postfix d);
          d = d\<lparr>summary_prefix := pre, summary_body := body, summary_postfix := post\<rparr>;
          d = d\<lparr>runningState := lit ''Finished''\<rparr>
      in (None, generate_report hk (st\<lparr>rdata := d\<rparr>)))"

text \<open>
  \<^verbatim>\<open>
  def pytest_terminal_summary(self, terminalreporter):
      terminalreporter.write_sep("-", f"Generated html report: file://...")

  def pytest_collection_finish(self, session):
      self._report.set_data("collectedItems", len(session.items))
  \<close>
  The terminal is not part of the state.
\<close>

definition pytest_terminal_summary ::
  "('o, 't) base_report \<Rightarrow> py_error option \<times> ('o, 't) base_report" where
  "pytest_terminal_summary st = (None, st)"

definition pytest_collection_finish ::
  "nat \<Rightarrow> ('o, 't) base_report \<Rightarrow> py_error option \<times> ('o, 't) base_report" where
  "pytest_collection_finish n_items st =
     (None, st\<lparr>rdata := (rdata st)\<lparr>collectedItems := n_items\<rparr>\<rparr>)"

text \<open>
  \<^verbatim>\<open>
  def pytest_runtest_logreport(self, report):
      if hasattr(report, "duration_formatter"):
          warnings.warn(...)
      data = {
          "result": _process_outcome(report),
          "duration": _format_duration(report.duration),
      }
      total_duration = self._report.data["totalDuration"]
      total_duration["total"] += report.duration
      total_duration["formatted"] = _format_duration(total_duration["total"])
      test_id = report.nodeid
      if report.when != "call":
          test_id += f"::{report.when}"
      data["testId"] = test_id
      data["extras"] = self._process_extras(report, test_id)
      links = [
          extra
          for extra in data["extras"]
          if extra["format_type"] in ["json", "text", "url"]
      ]
      cells = [
          f'<td class="col-result">{data["result"]}</td>',
          f'<td class="col-name">{data["testId"]}</td>',
          f'<td class="col-duration">{data["duration"]}</td>',
          f'<td class="col-links">{_process_links(links)}</td>',
      ]
      self._config.hook.pytest_html_results_table_row(report=report, cells=cells)
      if not cells:
          return
      cells = _fix_py(cells)
      data["resultsTableRow"] = cells
      processed_logs = _process_logs(report)
      self._config.hook.pytest_html_results_table_html(
          report=report, data=processed_logs
      )
      if self._report.add_test(data, report, processed_logs):
          self._generate_report()
  \<close>
  The handler is written in four parts: the update of the total duration, the test id,
  the cells of the row, and the handler itself. \<open>_process_extras\<close> changes the extras of
  the report in place, so the hooks that run after it see the report with the extras as
  processed.
\<close>

definition add_duration ::
  "'o test_report \<Rightarrow> ('o, 't) base_report \<Rightarrow> ('o, 't) base_report" where
  "add_duration report st =
     (let total = totalDuration_total (rdata st) + duration report
      in st\<lparr>rdata := (rdata st)\<lparr>totalDuration_total := total,
                                 totalDuration_formatted := format_duration total\<rparr>\<rparr>)"

definition test_id_of :: "'o test_report \<Rightarrow> pystr" where
  "test_id_of report =
     (let test_id = nodeid report
      in if when' report \<noteq> lit ''call'' then test_id @ lit ''::'' @ when' report else test_id)"

definition row_cells ::
  "('r, 'o) config \<Rightarrow> pystr \<Rightarrow> pystr \<Rightarrow> pystr \<Rightarrow> 'o extra list \<Rightarrow> 'o pyval list" where
  "row_cells cfg data_result data_testId data_duration data_extras =
     (let links = filter (\<lambda>extra. format_type extra \<in> set [lit ''json'', lit ''text'', lit ''url''])
                    data_extras
      in [PStr (lit ''<td class=\"col-result\">'' @ data_result @ lit ''</td>''),
          PStr (lit ''<td class=\"col-name\">'' @ data_testId @ lit ''</td>''),
          PStr (lit ''<td class=\"col-duration\">'' @ data_duration @ lit ''</td>''),
          PStr (lit ''<td class=\"col-links\">'' @ process_links cfg links @ lit ''</td>'')])"

definition with_extras :: "'o test_report \<Rightarrow> 'o extra list \<Rightarrow> 'o test_report" where
  "with_extras report data_extras =
     (case extras report of None \<Rightarrow> report | Some _ \<Rightarrow> report\<lparr>extras := Some data_extras\<rparr>)"

definition pytest_runtest_logreport ::
  "('r, 'o) config \<Rightarrow> ('o, 't) hooks \<Rightarrow> 'o test_report \<Rightarrow> ('o, 't) base_report
     \<Rightarrow> py_error option \<times> ('o, 't) base_report" where
  "pytest_runtest_logreport cfg hk report st =
     (let data_result = process_outcome report;
          data_duration = format_duration (duration report);
          st = add_duration report st;
          test_id = test_id_of report
      in case process_extras cfg report test_id of
           Inl e \<Rightarrow> (Some e, st)
         | Inr data_extras \<Rightarrow>
             let report = with_extras report data_extras;
                 cells = row_hook hk report
                           (row_cells cfg data_result test_id data_duration data_extras)
             in if cells = [] then (None, st)
                else
                  let cells = fix_py cfg cells;
                      data = \<lparr>result = data_result, duration_text = data_duration,
                              testId = test_id, row_extras = data_extras,
                              resultsTableRow = cells\<rparr>;
                      processed_logs = html_hook hk report (process_logs report);
                      (added, rows) = add_test hk data report processed_logs (tests (rdata st));
                      st = st\<lparr>rdata := (rdata st)\<lparr>tests := rows\<rparr>\<rparr>
                  in if added then (None, generate_report hk st) else (None, st))"

text \<open>
  The lifecycle events, and a run: the states after each event of a list, one after
  the other. An exception ends the run; the state in which it was raised is the last.
\<close>

datatype 'o event =
  SessionStart
  | CollectionFinish nat
  | RuntestLogreport "'o test_report"
  | SessionFinish
  | TerminalSummary

fun handle ::
  "('r, 'o) config \<Rightarrow> ('o, 't) hooks \<Rightarrow> 'o event \<Rightarrow> ('o, 't) base_report
     \<Rightarrow> py_error option \<times> ('o, 't) base_report" where
  "handle cfg hk SessionStart st = pytest_sessionstart cfg hk st"
| "handle cfg hk (CollectionFinish n_items) st = pytest_collection_finish n_items st"
| "handle cfg hk (RuntestLogreport report) st = pytest_runtest_logreport cfg hk report st"
| "handle cfg hk SessionFinish st = pytest_sessionfinish hk st"
| "handle cfg hk TerminalSummary st = pytest_terminal_summary st"

fun run ::
  "('r, 'o) config \<Rightarrow> ('o, 't) hooks \<Rightarrow> 'o event list \<Rightarrow> ('o, 't) base_report
     \<Rightarrow> ('o, 't) base_report list" where
  "run cfg hk [] st = []"
| "run cfg hk (ev # evs) st =
     (case handle cfg hk ev st of
        (None, st') \<Rightarrow> st' # run cfg hk evs st'
      | (Some e, st') \<Rightarrow> [st'])"

text \<open>
  The outcome of a whole run: the exception that ended it, if any, and the last state.
\<close>

fun run_all ::
  "('r, 'o) config \<Rightarrow> ('o, 't) hooks \<Rightarrow> 'o event list \<Rightarrow> ('o, 't) base_report
     \<Rightarrow> py_error option \<times> ('o, 't) base_report" where
  "run_all cfg hk [] st = (None, st)"
| "run_all cfg hk (ev # evs) st =
     (case handle cfg hk ev st of
        (None, st') \<Rightarrow> run_all cfg hk evs st'
      | (Some e, st') \<Rightarrow> (Some e, st'))"

text \<open>
  The events that start and finish the session, and the duration that an event
  carries: that of its report for a per-test report, and none otherwise.
\<close>

fun session_event :: "'o event \<Rightarrow> bool" where
  "session_event SessionStart = True"
| "session_event SessionFinish = True"
| "session_event (CollectionFinish n_items) = False"
| "session_event (RuntestLogreport report) = False"
| "session_event TerminalSummary = False"


text \<open>
  The only exceptions of a handler come from \<open>_process_extras\<close>. An event raises none
  when it is not a per-test report, or when the extras of its report are processed
  without exception.
\<close>

fun extras_ok :: "('r, 'o) config \<Rightarrow> 'o event \<Rightarrow> bool" where
  "extras_ok cfg (RuntestLogreport report) =
     (case process_extras cfg report (test_id_of report) of Inl e \<Rightarrow> False | Inr xs \<Rightarrow> True)"
| "extras_ok cfg SessionStart = True"
| "extras_ok cfg (CollectionFinish n_items) = True"
| "extras_ok cfg SessionFinish = True"
| "extras_ok cfg TerminalSummary = True"

section \<open>A matcher for concrete patterns\<close>

text \<open>
  To run the redactor on concrete patterns, \<open>re_match\<close> is instantiated with a matcher
  for the regular core of the pattern language: \<open>re.match\<close> succeeds when the pattern
  matches some prefix of the string. \<open>Dot\<close> is \<open>.\<close>, which matches every character but
  the line feed.
\<close>

datatype regex =
  Zero
  | One
  | Chr nat
  | Dot
  | Alt regex regex
  | Seq regex regex
  | Star regex

fun nullable :: "regex \<Rightarrow> bool" where
  "nullable Zero = False"
| "nullable One = True"
| "nullable (Chr c) = False"
| "nullable Dot = False"
| "nullable (Alt r s) = (nullable r \<or> nullable s)"
| "nullable (Seq r s) = (nullable r \<and> nullable s)"
| "nullable (Star r) = True"

fun deriv :: "nat \<Rightarrow> regex \<Rightarrow> regex" where
  "deriv c Zero = Zero"
| "deriv c One = Zero"
| "deriv c (Chr d) = (if c = d then One else Zero)"
| "deriv c Dot = (if c = 10 then Zero else One)"
| "deriv c (Alt r s) = Alt (deriv c r) (deriv c s)"
| "deriv c (Seq r s) =
     (if nullable r then Alt (Seq (deriv c r) s) (deriv c s) else Seq (deriv c r) s)"
| "deriv c (Star r) = Seq (deriv c r) (Star r)"

fun regex_match :: "regex \<Rightarrow> pystr \<Rightarrow> bool" where
  "regex_match r [] = nullable r"
| "regex_match r (c # cs) = (nullable r \<or> regex_match (deriv c r) cs)"

fun literal :: "pystr \<Rightarrow> regex" where
  "literal [] = One"
| "literal (c # cs) = Seq (Chr c) (literal cs)"

section \<open>The log processor as the specification words it\<close>

text \<open>
  The specification describes the result of the log processor entry by entry. These
  definitions follow its words, to be compared with \<open>process_logs\<close>: the traceback
  with each angle bracket escaped, the entries of one section (the banner with the
  content, one blank entry when the header contains \<open>log\<close>, one more when it also
  contains \<open>call\<close>), and the whole list with its placeholder.
\<close>

definition spec_escape_angle :: "pystr \<Rightarrow> pystr" where
  "spec_escape_angle s =
     concat (map (\<lambda>c. if c = 60 then lit ''&lt;'' else if c = 62 then lit ''&gt;'' else [c]) s)"

definition spec_banner :: "pystr \<Rightarrow> pystr" where
  "spec_banner header =
     (let label = lit '' '' @ header @ lit '' '';
          dashes = 80 - length label
      in replicate (dashes div 2) 45 @ label @ replicate (dashes - dashes div 2) 45)"

definition spec_section_entries :: "pystr \<times> pystr \<Rightarrow> pystr list" where
  "spec_section_entries sec =
     [spec_banner (fst sec) @ newline @ snd sec]
     @ (if contains (lit ''log'') (fst sec) then [[]] else [])
     @ (if contains (lit ''log'') (fst sec) \<and> contains (lit ''call'') (fst sec) then [[]] else [])"

definition spec_process_logs :: "'o test_report \<Rightarrow> pystr list" where
  "spec_process_logs report =
     (let entries =
            (if longreprtext report = [] then []
             else [spec_escape_angle (longreprtext report) @ newline])
            @ (if outcome report = lit ''rerun'' then []
               else concat (map spec_section_entries (sections report)))
      in if entries = [] then [lit ''No log output captured.''] else entries)"

section \<open>Truncation as the specification words it\<close>

text \<open>
  The specification truncates an asset file name by keeping only its trailing \<open>n\<close>
  characters.
\<close>

definition keep_trailing :: "nat \<Rightarrow> 'a list \<Rightarrow> 'a list" where
  "keep_trailing n xs = drop (length xs - n) xs"

section \<open>The masked value as the specification words it\<close>

text \<open>
  The specification replaces every character of the value's string form with the
  masking glyph: as many glyphs as \<open>str(value)\<close> has characters.
\<close>

definition masked :: "('r, 'o) config \<Rightarrow> 'o pyval \<Rightarrow> 'o pyval" where
  "masked cfg v = PStr (replicate (length (py_str (str_obj cfg) v)) black_box_ascii_value)"

section \<open>Concrete inputs\<close>

text \<open>
  A configuration, hooks, a report and a state on which the definitions are evaluated:
  the pattern \<open>SECRET.*\<close> in the redaction list, a maximum file name length of 255, a
  codec and sinks that return what they are given, hooks that change nothing, a data
  model that appends every row to a list and reports each addition, and the report of
  a failed call that took 65 seconds and carries one text extra.
\<close>

definition example_config :: "(regex, int) config" where
  "example_config =
     \<lparr>max_asset_filename_length = 255,
      environment_table_redact_list = [Seq (literal (lit ''SECRET'')) (Star Dot)],
      stash_metadata =
        [(lit ''SECRET_KEY'', PStr (lit ''abc123'')),
         (lit ''Python'', PStr (lit ''3.11'')),
         (lit ''MY_SECRET'', PStr (lit ''xyz'')),
         (lit ''SECRET_PIN'', PObj 1234)],
      re_match = regex_match,
      str_obj = str_int,
      uni_word = (\<lambda>c. False),
      unicode_escape = Inr,
      json_dumps = (\<lambda>v. Inr (py_str str_int v)),
      bytes_decode = (\<lambda>x. None),
      data_content = (\<lambda>c asset_name mime. c),
      media_content = (\<lambda>c asset_name mime. PStr asset_name)\<rparr>"

definition example_hooks :: "(int, int test_row list) hooks" where
  "example_hooks =
     \<lparr>title_hook = (\<lambda>t. t),
      header_hook = map PStr,
      row_hook = (\<lambda>report cells. cells),
      html_hook = (\<lambda>report logs. logs),
      summary_hook = (\<lambda>pre body post. (pre, body, post)),
      add_test = (\<lambda>data report logs rows. (True, rows @ [data])),
      render = (\<lambda>d. title d @ lit '': '' @ runningState d @ lit '' '' @ totalDuration_formatted d)\<rparr>"

definition example_report :: "int test_report" where
  "example_report =
     \<lparr>nodeid = lit ''tests/test_x.py::test_y[a/b]'', when' = lit ''call'',
      outcome = lit ''failed'', duration = 65,
      longreprtext = lit ''assert a < b'',
      sections = [(lit ''Captured log call'', lit ''x''), (lit ''Captured stdout'', lit ''y'')],
      wasxfail = None, rerun = None,
      extras = Some [\<lparr>content = PStr (lit ''hello''), extension = PStr (lit ''txt''),
                      format_type = lit ''text'', mime_type = PStr (lit ''text/plain''),
                      extra_name = PStr (lit ''log.txt'')\<rparr>]\<rparr>"

definition example_state :: "(int, int test_row list) base_report" where
  "example_state = \<lparr>rdata = initial_data (lit ''report.html'') [] [], written = []\<rparr>"

section \<open>Properties of the number and string helpers\<close>

lemma lit_Nil: "lit [] = []"
  by (simp add: lit_def)

lemma lit_Cons: "lit (c # cs) = of_char c # lit cs"
  by (simp add: lit_def)

lemma lit_append: "lit (xs @ ys) = lit xs @ lit ys"
  by (simp add: lit_def)


lemma fmod_less: "0 < y \<Longrightarrow> fmod x y < y"
proof -
  assume y: "0 < y"
  have "x / y < of_int \<lfloor>x / y\<rfloor> + 1" by linarith
  then have "y * (x / y) < y * (of_int \<lfloor>x / y\<rfloor> + 1)" using y by (simp only: mult_less_cancel_left_pos)
  moreover have "y * (x / y) = x" using y by simp
  ultimately have "x < y * of_int \<lfloor>x / y\<rfloor> + y" by (simp add: algebra_simps)
  then show ?thesis by (simp add: fmod_def)
qed



lemma str_nat_lt10: "n < 10 \<Longrightarrow> str_nat n = [digit n]"
  by (simp add: str_nat.simps)

lemma str_nat_ge10: "10 \<le> n \<Longrightarrow> str_nat n = str_nat (n div 10) @ [digit (n mod 10)]"
  by (subst str_nat.simps) simp

lemma str_nat_digits: "c \<in> set (str_nat n) \<Longrightarrow> 48 \<le> c \<and> c \<le> 57"
proof (induction n arbitrary: c rule: str_nat.induct)
  case (1 n)
  show ?case
  proof (cases "n < 10")
    case True
    with "1.prems" show ?thesis by (simp add: str_nat_lt10 digit_def)
  next
    case False
    then have "str_nat n = str_nat (n div 10) @ [digit (n mod 10)]" by (simp add: str_nat_ge10)
    with "1.prems" have "c \<in> set (str_nat (n div 10)) \<or> c = digit (n mod 10)" by auto
    then show ?thesis
    proof
      assume "c \<in> set (str_nat (n div 10))"
      with "1.IH" False show ?thesis by simp
    next
      assume "c = digit (n mod 10)"
      moreover have "n mod 10 < 10" by simp
      ultimately show ?thesis by (simp add: digit_def)
    qed
  qed
qed

lemma length_str_nat_ge10: "10 \<le> n \<Longrightarrow> 2 \<le> length (str_nat n)"
proof -
  assume n: "10 \<le> n"
  have "str_nat (n div 10) \<noteq> []" by (subst str_nat.simps) simp
  then have "1 \<le> length (str_nat (n div 10))" by (cases "str_nat (n div 10)") simp_all
  with n show ?thesis by (simp add: str_nat_ge10)
qed

lemma format_02d_lt10: "0 \<le> i \<Longrightarrow> i < 10 \<Longrightarrow> format_02d i = [digit 0, digit (nat i)]"
  by (simp add: format_02d_def str_int_def str_nat_lt10)

lemma format_02d_ge10: "10 \<le> i \<Longrightarrow> format_02d i = str_nat (nat i)"
proof -
  assume i: "10 \<le> i"
  then have "2 \<le> length (str_nat (nat i))" by (intro length_str_nat_ge10) simp
  with i show ?thesis by (simp add: format_02d_def str_int_def)
qed

lemma format_02d_length: "0 \<le> i \<Longrightarrow> i < 100 \<Longrightarrow> length (format_02d i) = 2"
proof (cases "i < 10")
  case True
  assume "0 \<le> i"
  with True show ?thesis by (simp add: format_02d_lt10)
next
  case False
  assume "i < 100"
  with False have "nat i div 10 < 10" by simp
  with False show ?thesis by (simp add: format_02d_ge10 str_nat_ge10 str_nat_lt10)
qed

section \<open>Properties of the duration formatter\<close>



text \<open>
  Claim C9. The seconds are rounded after the decomposition and are not carried: when
  a duration of at least one second leaves a final remainder of 59.5 or more, the
  seconds field is \<open>60\<close>. At \<open>d = 59.7\<close>, which lies between 1 and 3600, the result is
  \<open>"00:00:60"\<close> (the witness).
\<close>

theorem format_duration_seconds_60:
  assumes "1 \<le> d" and "119 / 2 \<le> fmod (fmod d 3600) 60"
  shows "py_round (fmod (fmod d 3600) 60) = 60 \<and>
         format_duration d =
           format_02d \<lfloor>d / 3600\<rfloor> @ lit '':'' @ format_02d \<lfloor>fmod d 3600 / 60\<rfloor> @ lit '':60''"
proof -
  define q where "q = fmod (fmod d 3600) 60"
  have q: "119 / 2 \<le> q" "q < 60" using assms by (simp_all add: q_def fmod_less)
  then have f: "\<lfloor>q\<rfloor> = 59" by (intro floor_unique) simp_all
  have p: "py_round q = 60" using q by (simp add: py_round_def f)
  have "format_02d 60 = lit ''60''" by code_simp
  then have "format_02d 60 = [54, 48]" by (simp add: lit_def)
  moreover have "lit '':60'' = lit '':'' @ [54, 48]" by (simp add: lit_def)
  ultimately show ?thesis using assms(1) p
    by (simp add: format_duration_def Let_def q_def [symmetric])
qed

theorem format_duration_seconds_60_witness:
  "(1::rat) \<le> 597 / 10 \<and> (597 / 10 :: rat) < 3600 \<and> 119 / 2 \<le> fmod (fmod (597 / 10) 3600) 60
   \<and> format_duration (597 / 10) = lit ''00:00:60''"
proof -
  have a: "(1::rat) \<le> 597 / 10" by simp
  have b: "119 / 2 \<le> fmod (fmod (597 / 10) 3600) 60" by code_simp
  have c: "format_02d \<lfloor>(597 / 10 :: rat) / 3600\<rfloor> @ lit '':'' @
           format_02d \<lfloor>fmod (597 / 10) 3600 / 60\<rfloor> @ lit '':60'' = lit ''00:00:60''" by code_simp
  from format_duration_seconds_60 [OF a b] c
  have "format_duration (597 / 10) = lit ''00:00:60''" by simp
  with a b show ?thesis by simp
qed

section \<open>Properties of the report builder\<close>

lemma contains_sublist: "contains sub s \<longleftrightarrow> sublist sub s"
  by (induction s) (auto simp: sublist_Cons_right)

lemma replace_single:
  "replace [a] new s = concat (map (\<lambda>c. if c = a then new else [c]) s)"
  by (induction s) auto

lemma lit_single: "lit [c] = [of_char c]"
  by (simp add: lit_def)

lemma escape_angle_replace:
  "replace (lit ''>'') (lit ''&gt;'') (replace (lit ''<'') (lit ''&lt;'') s) = spec_escape_angle s"
proof -
  have lt: "lit ''<'' = [60]" and gt: "lit ''>'' = [62]" by (simp_all add: lit_def)
  have amp: "concat (map (\<lambda>c. if c = 62 then lit ''&gt;'' else [c]) (lit ''&lt;'')) = lit ''&lt;''"
    by (simp add: lit_def)
  show ?thesis
    unfolding lt gt replace_single spec_escape_angle_def
    by (induction s) (simp_all add: amp)
qed

lemma format_center_banner:
  "format_center 45 80 (lit '' '' @ header @ lit '' '') = spec_banner header"
  by (simp add: format_center_def spec_banner_def Let_def)

lemma length_spec_banner: "length (spec_banner header) = max 80 (length header + 2)"
  by (simp add: spec_banner_def Let_def lit_def)

lemma sections_loop_entries:
  "sections_loop secs acc = acc @ concat (map spec_section_entries secs)"
proof (induction secs arbitrary: acc)
  case Nil
  show ?case by simp
next
  case (Cons sec secs)
  obtain header body where sec: "sec = (header, body)" by (cases sec)
  show ?case
    by (simp add: sec Cons.IH Let_def spec_section_entries_def format_center_banner)
qed

lemma concat_section_entries_Nil:
  "concat (map spec_section_entries secs) = [] \<longleftrightarrow> secs = []"
  by (cases secs) (simp_all add: spec_section_entries_def)

text \<open>
  Claim C5. The log processor produces the entries that the specification lists: the
  traceback with its angle brackets escaped (followed by a line feed) as the first
  entry when \<open>longreprtext\<close> is not empty; then, unless the outcome is \<open>rerun\<close>, for
  each captured section one entry with the header centred in a banner of 80 columns,
  a line feed and the raw content, one blank entry more when the header contains
  \<open>log\<close>, and another one when it also contains \<open>call\<close>; and the single placeholder
  \<open>No log output captured.\<close> when nothing was appended. The witness evaluates it on
  a report with two sections, on a rerun, and on a rerun without a traceback.
\<close>

theorem process_logs_spec:
  "process_logs report = spec_process_logs report"
  by (simp add: process_logs_def spec_process_logs_def Let_def sections_loop_entries
      escape_angle_replace concat_section_entries_Nil del: concat_eq_Nil_conv)

lemma capitalize_lower_tail:
  "list_all (\<lambda>c. \<not> (65 \<le> c \<and> c \<le> 90)) cs \<Longrightarrow> capitalize (c # cs) = to_upper c # cs"
  by (simp add: list_all_iff to_lower_def map_idI)


text \<open>
  Claim C10. For a report whose \<open>rerun\<close> attribute is \<open>-1\<close> the test index is 0, the
  same as for a report without the attribute, because \<open>rerun + 1\<close> is 0 and therefore
  not true in the and/or chain; for \<open>rerun \<ge> 0\<close> the index is \<open>rerun + 1\<close>.
\<close>

theorem test_index_of_rerun:
  "test_index_of (report\<lparr>rerun := None\<rparr>) = 0
   \<and> test_index_of (report\<lparr>rerun := Some (- 1)\<rparr>) = 0
   \<and> \<not> truthy (- 1 + 1)
   \<and> (\<forall>n. 0 \<le> n \<longrightarrow> test_index_of (report\<lparr>rerun := Some n\<rparr>) = n + 1)"
  by (simp add: test_index_of_def truthy_def)

lemma redactable_loop_iff: "redactable_loop m rs k \<longleftrightarrow> (\<exists>r\<in>set rs. m r k)"
  by (induction rs) auto

lemma update_present:
  "distinct (map fst md) \<Longrightarrow> map_of md key = Some v \<Longrightarrow>
   AList.update key w md = map (\<lambda>(k, v'). (k, if k = key then w else v')) md"
proof (induction md)
  case Nil
  then show ?case by simp
next
  case (Cons p md)
  obtain k0 v0 where p: "p = (k0, v0)" by (cases p)
  show ?case
  proof (cases "k0 = key")
    case True
    with Cons.prems p have "key \<notin> fst ` set md" by auto
    then have "map (\<lambda>(k, v'). (k, if k = key then w else v')) md = md"
      by (intro map_idI) (auto simp: image_iff)
    with True p show ?thesis by simp
  next
    case False
    with Cons p show ?thesis by simp
  qed
qed

lemma environment_loop_map:
  "distinct (map fst md) \<Longrightarrow> distinct ks \<Longrightarrow> set ks \<subseteq> fst ` set md \<Longrightarrow>
   environment_loop cfg ks md =
     Inr (map (\<lambda>(k, v). (k, if k \<in> set ks \<and> is_redactable_environment_variable cfg k
                               then masked cfg v else v)) md)"
proof (induction ks arbitrary: md)
  case Nil
  then show ?case by (simp add: case_prod_unfold)
next
  case (Cons key keys)
  from Cons.prems have "key \<in> fst ` set md" by simp
  then obtain v where v: "map_of md key = Some v"
    by (metis domD dom_map_of_conv_image_fst)
  let ?upd = "\<lambda>(k, v'). (k, if k = key then masked cfg v else v')"
  let ?md' = "if is_redactable_environment_variable cfg key then map ?upd md else md"
  have fst': "map fst ?md' = map fst md" by (simp add: case_prod_unfold comp_def)
  have step: "environment_loop cfg (key # keys) md = environment_loop cfg keys ?md'"
    using v update_present [OF Cons.prems(1) v, of "masked cfg v"]
    by (simp add: masked_def map_replicate_const)
  have d': "distinct (map fst ?md')" using Cons.prems(1) fst' by simp
  have s': "set keys \<subseteq> fst ` set ?md'"
  proof -
    have "fst ` set ?md' = set (map fst ?md')" by simp
    also have "\<dots> = fst ` set md" using fst' by simp
    finally show ?thesis using Cons.prems(3) by simp
  qed
  have k': "distinct keys" "key \<notin> set keys" using Cons.prems(2) by simp_all
  have vs: "(k, v') \<in> set md \<Longrightarrow> k = key \<Longrightarrow> v' = v" for k v'
    using Cons.prems(1) v by simp
  have "environment_loop cfg keys ?md' =
     Inr (map (\<lambda>(k, v). (k, if k \<in> set keys \<and> is_redactable_environment_variable cfg k
                               then masked cfg v else v)) ?md')"
    by (rule Cons.IH [OF d' k'(1) s'])
  also have "map (\<lambda>(k, v). (k, if k \<in> set keys \<and> is_redactable_environment_variable cfg k
                               then masked cfg v else v)) ?md'
      = map (\<lambda>(k, v). (k, if k \<in> set (key # keys) \<and> is_redactable_environment_variable cfg k
                               then masked cfg v else v)) md"
    using k'(2) vs by (auto simp: case_prod_unfold)
  finally show ?case using step by simp
qed

text \<open>
  Claim C3. For every metadata dictionary (its keys are distinct, as in every
  dictionary) and every list of redaction patterns, the redactor returns the
  dictionary with the same keys in the same order, where the value of each key that at
  least one pattern matches (\<open>re.match\<close>, anchored at the start of the key) is replaced
  by the masking glyph U+2593 repeated once per character of \<open>str(value)\<close>, and the
  value of every other key is unchanged. It raises no \<open>KeyError\<close>. The witness runs
  it with the pattern \<open>SECRET.*\<close>, which matches \<open>SECRET_KEY\<close> and not \<open>MY_SECRET\<close>.
\<close>

theorem generate_environment_redacts:
  assumes "distinct (map fst (stash_metadata cfg))"
  shows "generate_environment cfg =
     Inr (map (\<lambda>(key, v).
            (key, if \<exists>r \<in> set (environment_table_redact_list cfg). re_match cfg r key
                  then PStr (replicate (length (py_str (str_obj cfg) v)) 0x2593)
                  else v))
          (stash_metadata cfg))"
proof -
  have "generate_environment cfg =
     Inr (map (\<lambda>(k, v). (k, if k \<in> set (map fst (stash_metadata cfg))
                                   \<and> is_redactable_environment_variable cfg k
                               then masked cfg v else v)) (stash_metadata cfg))"
    unfolding generate_environment_def Let_def
    using assms by (intro environment_loop_map) simp_all
  also have "\<dots> = Inr (map (\<lambda>(key, v).
            (key, if \<exists>r \<in> set (environment_table_redact_list cfg). re_match cfg r key
                  then PStr (replicate (length (py_str (str_obj cfg) v)) 0x2593)
                  else v))
          (stash_metadata cfg))"
  proof -
    have "k \<in> set (map fst (stash_metadata cfg))" if "(k, v) \<in> set (stash_metadata cfg)" for k v
      using that by force
    then show ?thesis
      by (auto simp: masked_def black_box_ascii_value_def redactable_loop_iff
          is_redactable_environment_variable_def simp del: set_map)
  qed
  finally show ?thesis .
qed

theorem generate_environment_redacts_witness:
  "distinct (map fst (stash_metadata example_config))
   \<and> regex_match (Seq (literal (lit ''SECRET'')) (Star Dot)) (lit ''SECRET_KEY'')
   \<and> \<not> regex_match (Seq (literal (lit ''SECRET'')) (Star Dot)) (lit ''MY_SECRET'')
   \<and> generate_environment example_config =
       Inr [(lit ''SECRET_KEY'', PStr (replicate 6 0x2593)),
            (lit ''Python'', PStr (lit ''3.11'')),
            (lit ''MY_SECRET'', PStr (lit ''xyz'')),
            (lit ''SECRET_PIN'', PStr (replicate 4 0x2593))]"
proof -
  have d: "distinct (map fst (stash_metadata example_config))" by code_simp
  have m: "regex_match (Seq (literal (lit ''SECRET'')) (Star Dot)) (lit ''SECRET_KEY'')"
    by code_simp
  have n: "\<not> regex_match (Seq (literal (lit ''SECRET'')) (Star Dot)) (lit ''MY_SECRET'')"
    by code_simp
  have "map (\<lambda>(key, v).
            (key, if \<exists>r \<in> set (environment_table_redact_list example_config).
                       re_match example_config r key
                  then PStr (replicate (length (py_str (str_obj example_config) v)) 0x2593)
                  else v))
          (stash_metadata example_config)
      = [(lit ''SECRET_KEY'', PStr (replicate 6 0x2593)),
            (lit ''Python'', PStr (lit ''3.11'')),
            (lit ''MY_SECRET'', PStr (lit ''xyz'')),
            (lit ''SECRET_PIN'', PStr (replicate 4 0x2593))]"
    by code_simp
  with generate_environment_redacts [OF d] d m n show ?thesis by simp
qed

lemma slice_from_keep_trailing: "1 \<le> n \<Longrightarrow> slice_from (- n) xs = keep_trailing (nat n) xs"
  by (simp add: slice_from_def keep_trailing_def)

lemma slice_from_zero: "slice_from 0 xs = xs"
  by (simp add: slice_from_def)

lemma length_keep_trailing: "length (keep_trailing n xs) = min n (length xs)"
  by (simp add: keep_trailing_def)

lemma keep_trailing_suffix: "suffix (keep_trailing n xs) xs"
  by (simp add: keep_trailing_def suffix_drop)

text \<open>
  The asset file name for a maximum length of at least 1: the sanitized test id, the
  two indices and the extension, joined by \<open>_\<close>, \<open>_\<close> and \<open>.\<close>, of which the trailing
  characters are kept up to the maximum length. Sanitizing replaces every character
  that is neither a word character nor a dot with \<open>_\<close>.
\<close>

theorem asset_filename_truncated:
  assumes "1 \<le> max_asset_filename_length cfg"
  shows "asset_filename cfg test_id extra_index test_index file_extension =
      keep_trailing (nat (max_asset_filename_length cfg))
        (map (\<lambda>c. if word_char cfg c \<or> c = 46 then c else 95) test_id @ lit ''_'' @
         str_int extra_index @ lit ''_'' @ str_int test_index @ lit ''.'' @
         py_str (str_obj cfg) file_extension)
    \<and> int (length (asset_filename cfg test_id extra_index test_index file_extension))
        \<le> max_asset_filename_length cfg"
  using assms
  by (simp add: asset_filename_def sanitize_def slice_from_keep_trailing length_keep_trailing)

theorem asset_filename_truncated_witness:
  "1 \<le> max_asset_filename_length example_config
   \<and> asset_filename example_config (lit ''tests/test_x.py::test_y[a/b]'') 0 0 (PStr (lit ''png''))
       = lit ''tests_test_x.py__test_y_a_b__0_0.png''
   \<and> asset_filename (example_config\<lparr>max_asset_filename_length := 9\<rparr>)
         (lit ''tests/test_x.py::test_y[a/b]'') 0 0 (PStr (lit ''png''))
       = lit ''__0_0.png''"
proof -
  have a: "1 \<le> max_asset_filename_length example_config" by code_simp
  have b: "1 \<le> max_asset_filename_length (example_config\<lparr>max_asset_filename_length := 9\<rparr>)"
    by simp
  have c: "keep_trailing (nat (max_asset_filename_length example_config))
        (map (\<lambda>c. if word_char example_config c \<or> c = 46 then c else 95)
           (lit ''tests/test_x.py::test_y[a/b]'') @ lit ''_'' @
         str_int 0 @ lit ''_'' @ str_int 0 @ lit ''.'' @
         py_str (str_obj example_config) (PStr (lit ''png'')))
      = lit ''tests_test_x.py__test_y_a_b__0_0.png''" by code_simp
  have d: "keep_trailing (nat (max_asset_filename_length (example_config\<lparr>max_asset_filename_length := 9\<rparr>)))
        (map (\<lambda>c. if word_char (example_config\<lparr>max_asset_filename_length := 9\<rparr>) c \<or> c = 46 then c else 95)
           (lit ''tests/test_x.py::test_y[a/b]'') @ lit ''_'' @
         str_int 0 @ lit ''_'' @ str_int 0 @ lit ''.'' @
         py_str (str_obj (example_config\<lparr>max_asset_filename_length := 9\<rparr>)) (PStr (lit ''png'')))
      = lit ''__0_0.png''" by code_simp
  from asset_filename_truncated [OF a] c
  have 1: "asset_filename example_config (lit ''tests/test_x.py::test_y[a/b]'') 0 0 (PStr (lit ''png''))
       = lit ''tests_test_x.py__test_y_a_b__0_0.png''" by simp
  from asset_filename_truncated [OF b] d
  have 2: "asset_filename (example_config\<lparr>max_asset_filename_length := 9\<rparr>)
         (lit ''tests/test_x.py::test_y[a/b]'') 0 0 (PStr (lit ''png''))
       = lit ''__0_0.png''" by simp
  from a 1 2 show ?thesis by simp
qed

text \<open>
  Claim C4. The file name is the sanitized test id, the extra index, the test index
  and the extension, truncated to the trailing \<open>N\<close> characters for the configured
  maximum length \<open>N\<close>. The code truncates with the slice \<open>[-N:]\<close>, and for \<open>N = 0\<close>
  that slice is \<open>[0:]\<close>, the whole string: with a maximum length of 0 the name for the
  test id \<open>tests/test_x.py::test_y[a/b]\<close>, indices 0 and 0 and extension \<open>png\<close> is
  the full \<open>tests_test_x.py__test_y_a_b__0_0.png\<close>, whereas its trailing 0 characters
  are the empty string.
\<close>

theorem asset_filename_zero_length:
  "max_asset_filename_length (example_config\<lparr>max_asset_filename_length := 0\<rparr>) = 0
   \<and> asset_filename (example_config\<lparr>max_asset_filename_length := 0\<rparr>)
         (lit ''tests/test_x.py::test_y[a/b]'') 0 0 (PStr (lit ''png''))
       = lit ''tests_test_x.py__test_y_a_b__0_0.png''
   \<and> keep_trailing 0 (lit ''tests_test_x.py__test_y_a_b__0_0.png'') = []"
  by code_simp


theorem process_logs_spec_witness:
  "process_logs example_report =
     [lit ''assert a &lt; b'' @ newline,
      replicate 30 45 @ lit '' Captured log call '' @ replicate 31 45 @ newline @ lit ''x'',
      [], [],
      replicate 31 45 @ lit '' Captured stdout '' @ replicate 32 45 @ newline @ lit ''y'']
   \<and> process_logs (example_report\<lparr>outcome := lit ''rerun''\<rparr>) = [lit ''assert a &lt; b'' @ newline]
   \<and> process_logs (example_report\<lparr>outcome := lit ''rerun'', longreprtext := []\<rparr>)
       = [lit ''No log output captured.'']"
proof -
  have a: "spec_process_logs example_report =
     [lit ''assert a &lt; b'' @ newline,
      replicate 30 45 @ lit '' Captured log call '' @ replicate 31 45 @ newline @ lit ''x'',
      [], [],
      replicate 31 45 @ lit '' Captured stdout '' @ replicate 32 45 @ newline @ lit ''y'']"
    by code_simp
  have b: "spec_process_logs (example_report\<lparr>outcome := lit ''rerun''\<rparr>)
      = [lit ''assert a &lt; b'' @ newline]"
    by code_simp
  have c: "spec_process_logs (example_report\<lparr>outcome := lit ''rerun'', longreprtext := []\<rparr>)
       = [lit ''No log output captured.'']"
    by code_simp
  show ?thesis
    using process_logs_spec [of example_report]
      process_logs_spec [of "example_report\<lparr>outcome := lit ''rerun''\<rparr>"]
      process_logs_spec [of "example_report\<lparr>outcome := lit ''rerun'', longreprtext := []\<rparr>"]
    by (simp only: a b c)
qed

theorem test_index_of_rerun_witness:
  "test_index_of (example_report\<lparr>rerun := None\<rparr>) = 0
   \<and> test_index_of (example_report\<lparr>rerun := Some (- 1)\<rparr>) = 0
   \<and> test_index_of (example_report\<lparr>rerun := Some 0\<rparr>) = 1
   \<and> test_index_of (example_report\<lparr>rerun := Some 2\<rparr>) = 3"
  using test_index_of_rerun [of example_report] by simp

lemma rdata_generate_report: "rdata (generate_report hk st) = rdata st"
  by (simp add: generate_report_def)

lemma written_generate_report:
  "written (generate_report hk st) = written st @ [render hk (rdata st)]"
  by (simp add: generate_report_def)

lemma rdata_add_duration:
  "rdata (add_duration report st) =
     (rdata st)\<lparr>totalDuration_total := totalDuration_total (rdata st) + duration report,
                totalDuration_formatted :=
                  format_duration (totalDuration_total (rdata st) + duration report)\<rparr>"
  by (simp add: add_duration_def Let_def)

lemma written_add_duration: "written (add_duration report st) = written st"
  by (simp add: add_duration_def Let_def)

lemma logreport_rdata:
  "pytest_runtest_logreport cfg hk report st = (e, st') \<Longrightarrow>
   \<exists>rows. rdata st' = (rdata (add_duration report st))\<lparr>tests := rows\<rparr>"
  unfolding pytest_runtest_logreport_def Let_def
  by (auto split: sum.splits if_splits prod.splits simp: rdata_generate_report
      intro: exI [of _ "tests (rdata (add_duration report st))"])

lemma logreport_total:
  assumes "pytest_runtest_logreport cfg hk report st = (e, st')"
  shows "totalDuration_total (rdata st') = totalDuration_total (rdata st) + duration report"
    and "totalDuration_formatted (rdata st') =
           format_duration (totalDuration_total (rdata st) + duration report)"
    and "runningState (rdata st') = runningState (rdata st)"
  using logreport_rdata [OF assms] by (auto simp: rdata_add_duration)

text \<open>
  Claim C6. When the row hook leaves the cell list empty, the handler returns at
  once: the state it leaves is the one after the update of the total duration, in
  which the rows of the data model and the written report are as before. Neither
  \<open>add_test\<close> nor the template take part in the result. The witness runs the handler
  with a hook that clears the cells, and with one that does not, where one row is
  added and the report is written once.
\<close>

theorem logreport_row_suppressed:
  assumes "process_extras cfg report (test_id_of report) = Inr data_extras"
    and "row_hook hk (with_extras report data_extras)
           (row_cells cfg (process_outcome report) (test_id_of report)
              (format_duration (duration report)) data_extras) = []"
  shows "pytest_runtest_logreport cfg hk report st = (None, add_duration report st)
    \<and> tests (rdata (add_duration report st)) = tests (rdata st)
    \<and> written (add_duration report st) = written st"
  using assms
  by (simp add: pytest_runtest_logreport_def Let_def rdata_add_duration written_add_duration)

lemma generate_environment_ok_aux:
  "set ks \<subseteq> fst ` set md \<Longrightarrow> \<exists>md'. environment_loop cfg ks md = Inr md'"
proof (induction ks arbitrary: md)
  case Nil
  show ?case by simp
next
  case (Cons key keys)
  from Cons.prems have "key \<in> fst ` set md" by simp
  then obtain v where v: "map_of md key = Some v"
    by (metis domD dom_map_of_conv_image_fst)
  have "fst ` set (AList.update key w md) = fst ` set md" for w
    using \<open>key \<in> fst ` set md\<close> by (metis AList.update_keys list.set_map set_map)
  with Cons.prems have "set keys \<subseteq> fst ` set (AList.update key w md)" for w by simp
  with Cons.prems Cons.IH v show ?case by simp
qed

lemma generate_environment_ok: "\<exists>env. generate_environment cfg = Inr env"
  unfolding generate_environment_def Let_def
  by (rule generate_environment_ok_aux) simp

lemma sessionstart_result:
  "\<exists>st'. pytest_sessionstart cfg hk st = (None, st')
     \<and> runningState (rdata st') = lit ''Started''
     \<and> totalDuration_total (rdata st') = totalDuration_total (rdata st)"
proof -
  obtain env where "generate_environment cfg = Inr env"
    using generate_environment_ok by blast
  then show ?thesis
    by (simp add: pytest_sessionstart_def Let_def rdata_generate_report)
qed

lemma sessionfinish_result:
  "\<exists>st'. pytest_sessionfinish hk st = (None, st')
     \<and> runningState (rdata st') = lit ''Finished''
     \<and> totalDuration_total (rdata st') = totalDuration_total (rdata st)"
  by (simp add: pytest_sessionfinish_def Let_def rdata_generate_report split: prod.splits)


lemma handle_running:
  "\<not> session_event ev \<Longrightarrow> handle cfg hk ev st = (e, st') \<Longrightarrow>
   runningState (rdata st') = runningState (rdata st)"
  by (cases ev)
    (auto simp: pytest_collection_finish_def pytest_terminal_summary_def logreport_total(3))




lemma run_all_None_length:
  "fst (run_all cfg hk evs st) = None \<Longrightarrow> length (run cfg hk evs st) = length evs"
proof (induction evs arbitrary: st)
  case Nil
  show ?case by simp
next
  case (Cons ev evs)
  obtain e st' where h: "handle cfg hk ev st = (e, st')" by (cases "handle cfg hk ev st")
  show ?case
  proof (cases e)
    case None
    with h Cons show ?thesis by simp
  next
    case (Some err)
    with h Cons.prems show ?thesis by simp
  qed
qed

lemma length_run_le: "length (run cfg hk evs st) \<le> length evs"
proof (induction evs arbitrary: st)
  case Nil
  show ?case by simp
next
  case (Cons ev evs)
  obtain e st' where h: "handle cfg hk ev st = (e, st')" by (cases "handle cfg hk ev st")
  show ?case
  proof (cases e)
    case None
    with h Cons [of st'] show ?thesis by simp
  next
    case (Some err)
    with h show ?thesis by simp
  qed
qed

lemma run_keeps_running:
  "list_all (\<lambda>ev. \<not> session_event ev) evs \<Longrightarrow>
   map (\<lambda>s. runningState (rdata s)) (run cfg hk evs st)
     = replicate (length (run cfg hk evs st)) (runningState (rdata st))"
proof (induction evs arbitrary: st)
  case Nil
  show ?case by simp
next
  case (Cons ev evs)
  obtain e st' where h: "handle cfg hk ev st = (e, st')" by (cases "handle cfg hk ev st")
  from Cons.prems have ev: "\<not> session_event ev" and evs: "list_all (\<lambda>ev. \<not> session_event ev) evs"
    by simp_all
  have r: "runningState (rdata st') = runningState (rdata st)"
    using handle_running [OF ev h] .
  show ?case
  proof (cases e)
    case None
    with h r Cons.IH [OF evs, of st'] show ?thesis by simp
  next
    case (Some err)
    with h r show ?thesis by simp
  qed
qed

lemma run_after_start:
  assumes "list_all (\<lambda>ev. \<not> session_event ev) mid"
    and "list_all (\<lambda>ev. \<not> session_event ev) post"
    and "runningState (rdata st) = lit ''Started''"
  shows "map (\<lambda>s. runningState (rdata s)) (run cfg hk (mid @ SessionFinish # post) st)
     = take (length (run cfg hk (mid @ SessionFinish # post) st))
         (replicate (length mid) (lit ''Started'') @ replicate (Suc (length post)) (lit ''Finished''))"
  using assms
proof (induction mid arbitrary: st)
  case Nil
  obtain st' where f: "pytest_sessionfinish hk st = (None, st')"
    and r: "runningState (rdata st') = lit ''Finished''"
    using sessionfinish_result [of hk st] by blast
  have "length (run cfg hk post st') \<le> length post" by (rule length_run_le)
  then show ?case
    using f r run_keeps_running [OF Nil.prems(2), of cfg hk st'] by simp
next
  case (Cons ev mid)
  obtain e st' where h: "handle cfg hk ev st = (e, st')" by (cases "handle cfg hk ev st")
  from Cons.prems(1) have ev: "\<not> session_event ev" and mid: "list_all (\<lambda>ev. \<not> session_event ev) mid"
    by simp_all
  have r: "runningState (rdata st') = lit ''Started''"
    using handle_running [OF ev h] Cons.prems(3) by simp
  show ?case
  proof (cases e)
    case None
    with h r Cons.IH [OF mid Cons.prems(2) r] show ?thesis by simp
  next
    case (Some err)
    with h r show ?thesis by simp
  qed
qed

text \<open>
  Claim C8. In the lifecycle order (session start, then events that neither start nor
  finish the session, then session finish, then again such events) the running state
  is \<open>NotStarted\<close> at first, \<open>Started\<close> after the session start and after every event
  up to the session finish, and \<open>Finished\<close> from then on. A run that an exception
  ends shows a beginning of that sequence; a run without exception shows all of it.
\<close>

theorem running_state_lifecycle:
  assumes "list_all (\<lambda>ev. \<not> session_event ev) mid"
    and "list_all (\<lambda>ev. \<not> session_event ev) post"
  shows "runningState (initial_data report_name header rows) = lit ''NotStarted''
    \<and> run cfg hk (SessionStart # mid @ SessionFinish # post) st \<noteq> []
    \<and> map (\<lambda>s. runningState (rdata s)) (run cfg hk (SessionStart # mid @ SessionFinish # post) st)
        = take (length (run cfg hk (SessionStart # mid @ SessionFinish # post) st))
            (replicate (Suc (length mid)) (lit ''Started'')
             @ replicate (Suc (length post)) (lit ''Finished''))
    \<and> (fst (run_all cfg hk (SessionStart # mid @ SessionFinish # post) st) = None \<longrightarrow>
        map (\<lambda>s. runningState (rdata s)) (run cfg hk (SessionStart # mid @ SessionFinish # post) st)
        = replicate (Suc (length mid)) (lit ''Started'')
          @ replicate (Suc (length post)) (lit ''Finished''))"
proof -
  let ?evs = "SessionStart # mid @ SessionFinish # post"
  let ?full = "replicate (Suc (length mid)) (lit ''Started'')
               @ replicate (Suc (length post)) (lit ''Finished'')"
  obtain st' where s: "pytest_sessionstart cfg hk st = (None, st')"
    and r: "runningState (rdata st') = lit ''Started''"
    using sessionstart_result [of cfg hk st] by blast
  have i: "runningState (initial_data report_name header rows) = lit ''NotStarted''"
    by (simp add: initial_data_def)
  have n: "run cfg hk ?evs st \<noteq> []" using s by simp
  have t: "map (\<lambda>s. runningState (rdata s)) (run cfg hk ?evs st)
        = take (length (run cfg hk ?evs st)) ?full"
    using s r run_after_start [OF assms r, of cfg hk] by simp
  have "map (\<lambda>s. runningState (rdata s)) (run cfg hk ?evs st) = ?full"
    if "fst (run_all cfg hk ?evs st) = None"
  proof -
    have "length (run cfg hk ?evs st) = length ?evs"
      using that by (rule run_all_None_length)
    then have "length (run cfg hk ?evs st) = length ?full" by simp
    with t show ?thesis by simp
  qed
  with i n t show ?thesis by blast
qed

theorem logreport_row_suppressed_witness:
  "process_extras example_config example_report (test_id_of example_report)
     = Inr [\<lparr>content = PStr (lit ''hello''), extension = PStr (lit ''txt''),
             format_type = lit ''text'', mime_type = PStr (lit ''text/plain''),
             extra_name = PStr (lit ''log.txt'')\<rparr>]
   \<and> pytest_runtest_logreport example_config
        (example_hooks\<lparr>row_hook := (\<lambda>report cells. [])\<rparr>) example_report example_state
       = (None, add_duration example_report example_state)
   \<and> tests (rdata (add_duration example_report example_state)) = []
   \<and> written (add_duration example_report example_state) = []
   \<and> length (tests (rdata (snd (pytest_runtest_logreport example_config example_hooks
         example_report example_state)))) = 1
   \<and> length (written (snd (pytest_runtest_logreport example_config example_hooks
         example_report example_state))) = 1"
proof -
  have a: "process_extras example_config example_report (test_id_of example_report)
     = Inr [\<lparr>content = PStr (lit ''hello''), extension = PStr (lit ''txt''),
             format_type = lit ''text'', mime_type = PStr (lit ''text/plain''),
             extra_name = PStr (lit ''log.txt'')\<rparr>]"
    by code_simp
  have b: "row_hook (example_hooks\<lparr>row_hook := (\<lambda>report cells. [])\<rparr>) r c = []" for r c
    by simp
  have c: "tests (rdata example_state) = []" "written example_state = []"
    by (simp_all add: example_state_def initial_data_def)
  have d: "length (tests (rdata (snd (pytest_runtest_logreport example_config example_hooks
         example_report example_state)))) = 1"
    by code_simp
  have e: "length (written (snd (pytest_runtest_logreport example_config example_hooks
         example_report example_state))) = 1"
    by code_simp
  from logreport_row_suppressed [OF a b, of example_state] a c d e show ?thesis by simp
qed


end
